theory Spec2Isabelle
  imports Main
begin

section \<open>The service worker of HoB Tools (service-worker.js)\<close>

text \<open>
  The worker owns one named cache, precaches a list of URLs when it is installed, deletes
  the caches of older versions when it is activated, and answers the GET requests of its
  pages from the cache or the network. The browser is the environment: the network, the
  JSON parser and the Cache API are parameters of the model (record \<open>env\<close>); the worker's
  own code is translated function by function.
\<close>

subsection \<open>Requests, responses, JavaScript values\<close>

record request =
  url :: string
  "method" :: string
  mode :: string
  destination :: string
  cache :: string

record response =
  status :: nat
  type :: string
  body :: "string option"
  bodyUsed :: bool

text \<open>\<open>res.ok\<close>: the status is in the range 200..299.\<close>

definition ok :: "response \<Rightarrow> bool" where
  "ok res = (200 \<le> status res \<and> status res \<le> 299)"

text \<open>
  What \<open>res.json()\<close> can produce. A number is given by the text that \<open>String(n)\<close> prints
  for it (\<open>0\<close>, \<open>0.5\<close>, \<open>1e+21\<close>, \<open>Infinity\<close>), which determines the number up to the
  sign of zero. An object is the list of its own properties in enumeration order.
\<close>

datatype jsval =
    JNull
  | JBool bool
  | JNum string
  | JStr string
  | JArr "jsval list"
  | JObj "(string \<times> jsval) list"

text \<open>\<open>Boolean(v)\<close>: null, false, zero, NaN and the empty string are falsy.\<close>

fun truthy :: "jsval \<Rightarrow> bool" where
  "truthy JNull = False"
| "truthy (JBool b) = b"
| "truthy (JNum n) = (n \<noteq> ''0'' \<and> n \<noteq> ''NaN'')"
| "truthy (JStr s) = (s \<noteq> [])"
| "truthy (JArr xs) = True"
| "truthy (JObj kvs) = True"

text \<open>\<open>v.files\<close> for a truthy \<open>v\<close>; \<open>None\<close> is \<open>undefined\<close>.\<close>

fun get_files :: "jsval \<Rightarrow> jsval option" where
  "get_files (JObj kvs) = map_of kvs ''files''"
| "get_files v = None"

text \<open>\<open>Object.values(v)\<close> for a truthy \<open>v\<close>.\<close>

fun Object_values :: "jsval \<Rightarrow> jsval list" where
  "Object_values (JObj kvs) = map snd kvs"
| "Object_values (JArr xs) = xs"
| "Object_values (JStr s) = map (\<lambda>c. JStr [c]) s"
| "Object_values v = []"

text \<open>
  \<open>String(v)\<close>, the conversion applied to a value that is given where a URL is expected.
  An array prints its elements separated by commas, \<open>null\<close> elements as nothing.
\<close>

fun ToString :: "jsval \<Rightarrow> string" and join :: "jsval list \<Rightarrow> string" where
  "ToString JNull = ''null''"
| "ToString (JBool b) = (if b then ''true'' else ''false'')"
| "ToString (JNum n) = n"
| "ToString (JStr s) = s"
| "ToString (JArr xs) = join xs"
| "ToString (JObj kvs) = ''[object Object]''"
| "join [] = []"
| "join [x] = (if x = JNull then [] else ToString x)"
| "join (x # y # ys) = (if x = JNull then [] else ToString x) @ '','' @ join (y # ys)"

datatype error = TypeError | SyntaxError | InvalidStateError | QuotaExceededError

subsection \<open>The environment\<close>

text \<open>
  \<^item> \<open>net\<close>: what the network answers to a request; \<open>None\<close> when the fetch does not resolve.
  \<^item> \<open>parse\<close>: the JSON parser; \<open>None\<close> when the text does not parse.
  \<^item> \<open>batch_ok\<close>: whether the cache has room for a bulk insert of these URLs.
  \<^item> \<open>put_ok\<close>: whether the cache accepts a single write for this request.
\<close>

record env =
  net :: "request \<Rightarrow> response option"
  parse :: "string \<Rightarrow> jsval option"
  batch_ok :: "string list \<Rightarrow> bool"
  put_ok :: "request \<Rightarrow> bool"

text \<open>\<open>new Request(u)\<close>, and the request of \<open>fetch(u, { cache: c })\<close>.\<close>

definition Request :: "string \<Rightarrow> string \<Rightarrow> request" where
  "Request u c = \<lparr>url = u, method = ''GET'', mode = ''cors'', destination = [], cache = c\<rparr>"

text \<open>A response object as \<open>fetch\<close> hands it over: its body has not been read.\<close>

definition fresh :: "response \<Rightarrow> response" where
  "fresh r = r\<lparr>bodyUsed := False\<rparr>"

definition Response_error :: response where
  "Response_error = \<lparr>status = 0, type = ''error'', body = None, bodyUsed = False\<rparr>"

text \<open>\<open>res.json()\<close>: a response without body text does not parse.\<close>

definition json :: "env \<Rightarrow> response \<Rightarrow> jsval option" where
  "json env res = (case body res of None \<Rightarrow> None | Some txt \<Rightarrow> parse env txt)"

subsection \<open>The cache\<close>

text \<open>A cache maps the URL of a GET request to the stored response.\<close>

type_synonym cache_store = "string \<rightharpoonup> response"

text \<open>
  \<open>cache.addAll(urls)\<close> fetches every URL and stores the responses. It is all or nothing:
  it rejects, and the cache is as before, when one fetch does not resolve or resolves
  with a status outside 200..299, when a URL occurs twice in the list, or when the cache
  has no room for the batch.
\<close>

definition fetch_ok :: "env \<Rightarrow> string \<Rightarrow> bool" where
  "fetch_ok env u = (case net env (Request u ''default'') of None \<Rightarrow> False | Some r \<Rightarrow> ok r)"

fun addAll_store :: "env \<Rightarrow> string list \<Rightarrow> cache_store \<Rightarrow> cache_store" where
  "addAll_store env [] c = c"
| "addAll_store env (u # us) c =
     (case net env (Request u ''default'') of
        None \<Rightarrow> addAll_store env us c
      | Some r \<Rightarrow> addAll_store env us (c(u \<mapsto> fresh r)))"

definition cache_addAll :: "env \<Rightarrow> cache_store \<Rightarrow> string list \<Rightarrow> error + cache_store" where
  "cache_addAll env c urls =
     (if \<not> list_all (fetch_ok env) urls then Inl TypeError
      else if \<not> distinct urls then Inl InvalidStateError
      else if \<not> batch_ok env urls then Inl QuotaExceededError
      else Inr (addAll_store env urls c))"

subsection \<open>Install: precacheFromManifest\<close>

definition CACHE_NAME :: string where
  "CACHE_NAME = ''hob-tools-v2''"

definition CORE_URLS :: "string list" where
  "CORE_URLS =
     [''/'', ''/index.html'', ''/manifest.json'', ''/favicon.ico'',
      ''/logo192.svg'', ''/logo512.svg'']"

text \<open>
  \<open>manifest && manifest.files ? Object.values(manifest.files) : []\<close>
\<close>

definition manifest_files :: "jsval \<Rightarrow> jsval list" where
  "manifest_files manifest =
     (if truthy manifest then
        (case get_files manifest of
           None \<Rightarrow> []
         | Some fs \<Rightarrow> if truthy fs then Object_values fs else [])
      else [])"

text \<open>\<open>[...CORE_URLS, ...files].filter(Boolean)\<close>\<close>

definition precache_urls :: "jsval list \<Rightarrow> jsval list" where
  "precache_urls files = filter truthy (map JStr CORE_URLS @ files)"

text \<open>
  The body of \<open>precacheFromManifest\<close>. Every rejection inside the \<open>try\<close> block (the fetch
  of the manifest, \<open>res.json()\<close>, the first \<open>addAll\<close>) goes to the \<open>catch\<close> block, which
  inserts \<open>CORE_URLS\<close>; a rejection of that second \<open>addAll\<close> is the result \<open>Inl\<close>. A
  manifest response that is not \<open>ok\<close> returns from the function at once.
\<close>

definition precacheFromManifest :: "env \<Rightarrow> cache_store \<Rightarrow> error + cache_store" where
  "precacheFromManifest env c =
     (case net env (Request ''/asset-manifest.json'' ''no-store'') of
        None \<Rightarrow> cache_addAll env c CORE_URLS
      | Some res \<Rightarrow>
          if \<not> ok res then Inr c
          else
            (case json env res of
               None \<Rightarrow> cache_addAll env c CORE_URLS
             | Some manifest \<Rightarrow>
                 (case cache_addAll env c
                         (map ToString (precache_urls (manifest_files manifest))) of
                    Inr c' \<Rightarrow> Inr c'
                  | Inl err \<Rightarrow> cache_addAll env c CORE_URLS)))"

subsection \<open>Activate: deleting the caches of other versions\<close>

text \<open>
  The cache registry of the origin: the named caches in the order \<open>caches.keys()\<close> lists
  them. The second component of the state of the loop is the list of names handed to
  \<open>caches.delete\<close>.
\<close>

type_synonym registry = "(string \<times> cache_store) list"

definition caches_keys :: "registry \<Rightarrow> string list" where
  "caches_keys reg = map fst reg"

definition caches_delete :: "string \<Rightarrow> registry \<Rightarrow> registry" where
  "caches_delete key reg = filter (\<lambda>e. fst e \<noteq> key) reg"

text \<open>
  \<open>keys.map((key) => (key !== CACHE_NAME ? caches.delete(key) : Promise.resolve()))\<close>
\<close>

fun delete_old :: "string list \<Rightarrow> registry \<times> string list \<Rightarrow> registry \<times> string list" where
  "delete_old [] acc = acc"
| "delete_old (key # keys) (reg, deleted) =
     (if key \<noteq> CACHE_NAME
      then delete_old keys (caches_delete key reg, deleted @ [key])
      else delete_old keys (reg, deleted))"

definition onactivate :: "registry \<Rightarrow> registry \<times> string list" where
  "onactivate reg = delete_old (caches_keys reg) (reg, [])"

subsection \<open>Fetch: the state of one handling task\<close>

text \<open>
  Response objects are mutable (reading a body marks the object as used) and the handler
  passes references to them around, so they live in a heap: a reference is an index into
  the list \<open>heap\<close>. \<open>store\<close> is the content of the cache \<open>CACHE_NAME\<close>, which
  \<open>caches.open\<close> creates empty when it does not exist. Three logs record what the task
  asks of the platform: \<open>fetched\<close> the network calls, \<open>lookups\<close> the calls of
  \<open>cache.match\<close>, \<open>puts\<close> the calls of \<open>cache.put\<close>.
\<close>

record state =
  store :: cache_store
  heap :: "response list"
  fetched :: "request list"
  lookups :: "string list"
  puts :: "(string \<times> nat) list"

definition alloc :: "response \<Rightarrow> state \<Rightarrow> nat \<times> state" where
  "alloc r st = (length (heap st), st\<lparr>heap := heap st @ [r]\<rparr>)"

text \<open>\<open>fetch(request)\<close>: rejects with a TypeError when the network does not answer.\<close>

definition fetch :: "env \<Rightarrow> request \<Rightarrow> state \<Rightarrow> (error + nat) \<times> state" where
  "fetch env req st =
     (case net env req of
        None \<Rightarrow> (Inl TypeError, st\<lparr>fetched := fetched st @ [req]\<rparr>)
      | Some r \<Rightarrow>
          (case alloc (fresh r) (st\<lparr>fetched := fetched st @ [req]\<rparr>) of
             (a, st') \<Rightarrow> (Inr a, st')))"

text \<open>\<open>cache.match(u)\<close>: a new response object for the stored entry, or \<open>undefined\<close>.\<close>

definition cache_match :: "string \<Rightarrow> state \<Rightarrow> nat option \<times> state" where
  "cache_match u st =
     (case store st u of
        None \<Rightarrow> (None, st\<lparr>lookups := lookups st @ [u]\<rparr>)
      | Some r \<Rightarrow>
          (case alloc r (st\<lparr>lookups := lookups st @ [u]\<rparr>) of (a, st') \<Rightarrow> (Some a, st')))"

text \<open>\<open>response.clone()\<close>: a second object; throws when the body has been read.\<close>

definition clone :: "nat \<Rightarrow> state \<Rightarrow> error + (nat \<times> state)" where
  "clone a st =
     (if a < length (heap st) \<and> \<not> bodyUsed (heap st ! a)
      then Inr (alloc (heap st ! a) st) else Inl TypeError)"

text \<open>
  \<open>cache.put(request, r)\<close>, not awaited: the call reads the body of \<open>r\<close>, which marks that
  object as used, and stores the entry when the cache accepts the write. A rejection
  reaches nobody, so the result is only the new state.
\<close>

definition cache_put :: "env \<Rightarrow> request \<Rightarrow> nat \<Rightarrow> state \<Rightarrow> state" where
  "cache_put env req a st =
     (if a < length (heap st) \<and> \<not> bodyUsed (heap st ! a) then
        (if put_ok env req
         then st\<lparr>store := (store st)(url req \<mapsto> heap st ! a),
                 heap := (heap st)[a := (heap st ! a)\<lparr>bodyUsed := True\<rparr>],
                 puts := puts st @ [(url req, a)]\<rparr>
         else st\<lparr>heap := (heap st)[a := (heap st ! a)\<lparr>bodyUsed := True\<rparr>],
                 puts := puts st @ [(url req, a)]\<rparr>)
      else st\<lparr>puts := puts st @ [(url req, a)]\<rparr>)"

text \<open>\<open>(await cache.match('/index.html')) || Response.error()\<close>\<close>

definition index_or_error :: "state \<Rightarrow> nat \<times> state" where
  "index_or_error st =
     (case cache_match ''/index.html'' st of
        (Some cached, st') \<Rightarrow> (cached, st')
      | (None, st') \<Rightarrow> alloc Response_error st')"

text \<open>\<open>response && response.status === 200 && response.type === 'basic'\<close>\<close>

definition cacheable :: "state \<Rightarrow> nat \<Rightarrow> bool" where
  "cacheable st a =
     (a < length (heap st) \<and> status (heap st ! a) = 200 \<and> type (heap st ! a) = ''basic'')"

text \<open>The \<open>catch\<close> block of the cache-first branch.\<close>

definition runtime_catch :: "request \<Rightarrow> state \<Rightarrow> nat option \<times> state" where
  "runtime_catch request st =
     (if destination request = ''document''
      then (case index_or_error st of (fallback, st') \<Rightarrow> (Some fallback, st'))
      else (case alloc Response_error st of (e, st') \<Rightarrow> (Some e, st')))"

subsection \<open>Fetch: the handler\<close>

text \<open>
  The result is the reference given to \<open>event.respondWith\<close>, or \<open>None\<close> when the handler
  returns without calling it, and the state afterwards.
\<close>

definition onfetch :: "env \<Rightarrow> request \<Rightarrow> state \<Rightarrow> nat option \<times> state" where
  "onfetch env request st =
     (if method request \<noteq> ''GET'' then (None, st)
      else if mode request = ''navigate'' then
        (case fetch env request st of
           (Inr networkResponse, st1) \<Rightarrow> (Some networkResponse, st1)
         | (Inl err, st1) \<Rightarrow>
             (case index_or_error st1 of (cached, st2) \<Rightarrow> (Some cached, st2)))
      else
        (case cache_match (url request) st of
           (Some cached, st1) \<Rightarrow> (Some cached, st1)
         | (None, st1) \<Rightarrow>
             (case fetch env request st1 of
                (Inr response, st2) \<Rightarrow>
                  if cacheable st2 response then
                    (case clone response st2 of
                       Inr (copy, st3) \<Rightarrow> (Some response, cache_put env request copy st3)
                     | Inl err \<Rightarrow> runtime_catch request st2)
                  else (Some response, st2)
              | (Inl err, st2) \<Rightarrow> runtime_catch request st2)))"

text \<open>The response object the page receives: the object behind the returned reference.\<close>

definition delivered :: "nat option \<times> state \<Rightarrow> response option" where
  "delivered out =
     (case fst out of
        None \<Rightarrow> None
      | Some a \<Rightarrow> if a < length (heap (snd out)) then Some (heap (snd out) ! a) else None)"

subsection \<open>Concrete environments and inputs\<close>

definition page :: "string \<Rightarrow> response" where
  "page txt = \<lparr>status = 200, type = ''basic'', body = Some txt, bodyUsed = False\<rparr>"

text \<open>The manifest \<open>{ files: { "main.js": "/static/main.abc123.js" } }\<close>.\<close>

definition manifest_text :: string where
  "manifest_text = ''{ files: { main.js: /static/main.abc123.js } }''"

definition manifest_value :: jsval where
  "manifest_value = JObj [(''files'', JObj [(''main.js'', JStr ''/static/main.abc123.js'')])]"

text \<open>A manifest that lists an empty path, a new path, \<open>null\<close>, zero and \<open>false\<close>.\<close>

definition manifest_text2 :: string where
  "manifest_text2 = ''{ files: { a: , b: /static/x.js, c: null, d: 0, e: false } }''"

definition manifest_value2 :: jsval where
  "manifest_value2 =
     JObj [(''files'', JObj [(''a'', JStr []), (''b'', JStr ''/static/x.js''), (''c'', JNull),
                             (''d'', JNum ''0''), (''e'', JBool False)])]"

text \<open>A manifest that lists a new path and \<open>/index.html\<close>, which is in the core list.\<close>

definition manifest_text3 :: string where
  "manifest_text3 = ''{ files: { main.js: /static/js/main.abc123.js, index.html: /index.html } }''"

definition manifest_value3 :: jsval where
  "manifest_value3 =
     JObj [(''files'', JObj [(''main.js'', JStr ''/static/js/main.abc123.js''),
                             (''index.html'', JStr ''/index.html'')])]"

text \<open>
  A site whose manifest endpoint answers \<open>m\<close> and whose every other path answers a page
  with status 200; the parser reads the three manifest texts as the three manifest
  values; the cache has room for every batch and accepts every write.
\<close>

definition site :: "response option \<Rightarrow> env" where
  "site m =
     \<lparr>net = (\<lambda>req. if url req = ''/asset-manifest.json'' then m else Some (page ''asset'')),
      parse = (\<lambda>txt. if txt = manifest_text then Some manifest_value
                      else if txt = manifest_text2 then Some manifest_value2
                      else if txt = manifest_text3 then Some manifest_value3 else None),
      batch_ok = (\<lambda>us. True),
      put_ok = (\<lambda>req. True)\<rparr>"

definition http500 :: response where
  "http500 = \<lparr>status = 500, type = ''basic'', body = Some ''Internal Server Error'',
              bodyUsed = False\<rparr>"

text \<open>A network that answers every request with \<open>a\<close>, and a cache that accepts writes.\<close>

definition network :: "response option \<Rightarrow> env" where
  "network a =
     \<lparr>net = (\<lambda>req. a),
      parse = (\<lambda>txt. None),
      batch_ok = (\<lambda>us. True),
      put_ok = (\<lambda>req. True)\<rparr>"

text \<open>The same environment with a cache that refuses every single write.\<close>

definition refusing :: "env \<Rightarrow> env" where
  "refusing env = env\<lparr>put_ok := (\<lambda>req. False)\<rparr>"

definition get_request :: "string \<Rightarrow> string \<Rightarrow> string \<Rightarrow> request" where
  "get_request u m d = \<lparr>url = u, method = ''GET'', mode = m, destination = d, cache = ''default''\<rparr>"

definition post_request :: "string \<Rightarrow> request" where
  "post_request u =
     \<lparr>url = u, method = ''POST'', mode = ''cors'', destination = [], cache = ''default''\<rparr>"

text \<open>An opaque response, as a cross-origin \<open>no-cors\<close> request receives it.\<close>

definition opaque :: response where
  "opaque = \<lparr>status = 0, type = ''opaque'', body = None, bodyUsed = False\<rparr>"

definition task :: "cache_store \<Rightarrow> state" where
  "task c = \<lparr>store = c, heap = [], fetched = [], lookups = [], puts = []\<rparr>"

section \<open>Install\<close>






lemmas site_defs = site_def page_def ok_def json_def manifest_text_def manifest_value_def
  manifest_text2_def manifest_value2_def manifest_text3_def manifest_value3_def
  manifest_files_def precache_urls_def CORE_URLS_def
  cache_addAll_def fetch_ok_def Request_def


text \<open>
  Claim C1. When the manifest fetch resolves with a non-success status, the precache is
  said to fall back to the static core list, so that the store holds the six core paths.
  The code returns at \<open>if (!res.ok) return;\<close> instead and inserts nothing: with the
  manifest endpoint answering HTTP 500 and an empty store, the store stays empty. The
  fallback is what the \<open>catch\<close> block does when the fetch does not resolve at all: on
  the same site with the manifest fetch failing, the six core paths are stored.
\<close>

theorem precache_http500_inserts_nothing:
  "\<not> ok http500
   \<and> precacheFromManifest (site (Some http500)) Map.empty = Inr Map.empty
   \<and> (\<exists>c'. precacheFromManifest (site None) Map.empty = Inr c' \<and> dom c' = set CORE_URLS)"
  by (auto simp add: precacheFromManifest_def http500_def site_defs)




section \<open>Fetch\<close>

lemmas fetch_defs = onfetch_def fetch_def cache_match_def alloc_def clone_def cache_put_def
  index_or_error_def cacheable_def runtime_catch_def delivered_def fresh_def

lemmas input_defs = network_def refusing_def get_request_def post_request_def task_def page_def
  opaque_def http500_def Response_error_def

text \<open>
  Claim C3. A GET request that is not a navigation and is not in the store goes to the
  network. When the fetch resolves with status 200 and type \<open>basic\<close>, the handler answers
  with the response object of the fetch, whose body is unread, and calls \<open>cache.put\<close>
  exactly once, with a clone (another object); the store gains that one entry under the
  URL of the request when the cache accepts the write, and stays as it was when the
  cache refuses it. With any other status or type nothing is written and the response
  is returned as it came.
\<close>

theorem runtime_caches_basic_200_only:
  assumes "method request = ''GET''" and "mode request \<noteq> ''navigate''"
    and "store st (url request) = None" and "net env request = Some r"
  shows "(status r = 200 \<and> type r = ''basic'' \<longrightarrow>
            fst (onfetch env request st) = Some (length (heap st))
          \<and> delivered (onfetch env request st) = Some (r\<lparr>bodyUsed := False\<rparr>)
          \<and> puts (snd (onfetch env request st))
              = puts st @ [(url request, Suc (length (heap st)))]
          \<and> (put_ok env request \<longrightarrow>
               store (snd (onfetch env request st))
                 = (store st)(url request \<mapsto> r\<lparr>bodyUsed := False\<rparr>))
          \<and> (\<not> put_ok env request \<longrightarrow>
               store (snd (onfetch env request st)) = store st))
       \<and> (\<not> (status r = 200 \<and> type r = ''basic'') \<longrightarrow>
            delivered (onfetch env request st) = Some (r\<lparr>bodyUsed := False\<rparr>)
          \<and> puts (snd (onfetch env request st)) = puts st
          \<and> store (snd (onfetch env request st)) = store st)"
  using assms by (simp add: fetch_defs nth_append)

theorem runtime_caches_basic_200_only_witness:
  "method (get_request ''/static/app.js'' ''no-cors'' ''script'') = ''GET''
   \<and> mode (get_request ''/static/app.js'' ''no-cors'' ''script'') \<noteq> ''navigate''
   \<and> store (task Map.empty) (url (get_request ''/static/app.js'' ''no-cors'' ''script'')) = None
   \<and> net (network (Some (page ''code''))) (get_request ''/static/app.js'' ''no-cors'' ''script'')
       = Some (page ''code'')
   \<and> status (page ''code'') = 200 \<and> type (page ''code'') = ''basic''
   \<and> put_ok (network (Some (page ''code''))) (get_request ''/static/app.js'' ''no-cors'' ''script'')
   \<and> delivered (onfetch (network (Some (page ''code'')))
         (get_request ''/static/app.js'' ''no-cors'' ''script'') (task Map.empty))
       = Some (page ''code'')
   \<and> puts (snd (onfetch (network (Some (page ''code'')))
         (get_request ''/static/app.js'' ''no-cors'' ''script'') (task Map.empty)))
       = [(''/static/app.js'', 1)]
   \<and> store (snd (onfetch (network (Some (page ''code'')))
         (get_request ''/static/app.js'' ''no-cors'' ''script'') (task Map.empty)))
       = [''/static/app.js'' \<mapsto> page ''code'']
   \<and> net (refusing (network (Some (page ''code''))))
         (get_request ''/static/app.js'' ''no-cors'' ''script'') = Some (page ''code'')
   \<and> \<not> put_ok (refusing (network (Some (page ''code''))))
         (get_request ''/static/app.js'' ''no-cors'' ''script'')
   \<and> delivered (onfetch (refusing (network (Some (page ''code''))))
         (get_request ''/static/app.js'' ''no-cors'' ''script'') (task Map.empty))
       = Some (page ''code'')
   \<and> puts (snd (onfetch (refusing (network (Some (page ''code''))))
         (get_request ''/static/app.js'' ''no-cors'' ''script'') (task Map.empty)))
       = [(''/static/app.js'', 1)]
   \<and> store (snd (onfetch (refusing (network (Some (page ''code''))))
         (get_request ''/static/app.js'' ''no-cors'' ''script'') (task Map.empty)))
       = Map.empty
   \<and> net (network (Some opaque)) (get_request ''/api/data'' ''no-cors'' []) = Some opaque
   \<and> type opaque \<noteq> ''basic''
   \<and> delivered (onfetch (network (Some opaque)) (get_request ''/api/data'' ''no-cors'' [])
         (task Map.empty)) = Some opaque
   \<and> puts (snd (onfetch (network (Some opaque)) (get_request ''/api/data'' ''no-cors'' [])
         (task Map.empty))) = []
   \<and> store (snd (onfetch (network (Some opaque)) (get_request ''/api/data'' ''no-cors'' [])
         (task Map.empty))) = Map.empty"
  using runtime_caches_basic_200_only
          [of "get_request ''/static/app.js'' ''no-cors'' ''script''" "task Map.empty"
              "network (Some (page ''code''))" "page ''code''"]
        runtime_caches_basic_200_only
          [of "get_request ''/static/app.js'' ''no-cors'' ''script''" "task Map.empty"
              "refusing (network (Some (page ''code'')))" "page ''code''"]
        runtime_caches_basic_200_only
          [of "get_request ''/api/data'' ''no-cors'' []" "task Map.empty"
              "network (Some opaque)" opaque]
  by (simp add: input_defs)

text \<open>
  Without the condition on the write the statement fails. A script is fetched with
  status 200 and type \<open>basic\<close> and is not in the store; the cache refuses the write; the
  page receives the response and the store afterwards is still empty.
\<close>

theorem runtime_put_refused_counterexample:
  "method (get_request ''/static/app.js'' ''no-cors'' ''script'') = ''GET''
   \<and> mode (get_request ''/static/app.js'' ''no-cors'' ''script'') \<noteq> ''navigate''
   \<and> store (task Map.empty) (url (get_request ''/static/app.js'' ''no-cors'' ''script'')) = None
   \<and> net (refusing (network (Some (page ''code''))))
         (get_request ''/static/app.js'' ''no-cors'' ''script'') = Some (page ''code'')
   \<and> status (page ''code'') = 200 \<and> type (page ''code'') = ''basic''
   \<and> delivered (onfetch (refusing (network (Some (page ''code''))))
         (get_request ''/static/app.js'' ''no-cors'' ''script'') (task Map.empty))
       = Some (page ''code'')
   \<and> store (snd (onfetch (refusing (network (Some (page ''code''))))
         (get_request ''/static/app.js'' ''no-cors'' ''script'') (task Map.empty)))
       = Map.empty"
  by (simp add: fetch_defs input_defs)

text \<open>
  Claim C4. A GET request that is not a navigation and whose URL is in the store is
  answered with the stored response; the task makes no network call and writes nothing.
\<close>

theorem cache_hit_skips_network:
  assumes "method request = ''GET''" and "mode request \<noteq> ''navigate''"
    and "store st (url request) = Some c"
  shows "delivered (onfetch env request st) = Some c
       \<and> fetched (snd (onfetch env request st)) = fetched st
       \<and> puts (snd (onfetch env request st)) = puts st
       \<and> store (snd (onfetch env request st)) = store st"
  using assms by (simp add: fetch_defs nth_append)

theorem cache_hit_skips_network_witness:
  "method (get_request ''/static/app.js'' ''no-cors'' ''script'') = ''GET''
   \<and> mode (get_request ''/static/app.js'' ''no-cors'' ''script'') \<noteq> ''navigate''
   \<and> store (task [''/static/app.js'' \<mapsto> page ''cached''])
         (url (get_request ''/static/app.js'' ''no-cors'' ''script'')) = Some (page ''cached'')
   \<and> delivered (onfetch (network (Some (page ''newer'')))
         (get_request ''/static/app.js'' ''no-cors'' ''script'')
         (task [''/static/app.js'' \<mapsto> page ''cached''])) = Some (page ''cached'')
   \<and> fetched (snd (onfetch (network (Some (page ''newer'')))
         (get_request ''/static/app.js'' ''no-cors'' ''script'')
         (task [''/static/app.js'' \<mapsto> page ''cached'']))) = []"
  using cache_hit_skips_network
          [of "get_request ''/static/app.js'' ''no-cors'' ''script''"
              "task [''/static/app.js'' \<mapsto> page ''cached'']" "page ''cached''"
              "network (Some (page ''newer''))"]
  by (simp add: input_defs)

text \<open>
  Claim C5. A navigation GET request goes to the network first. A response that resolves
  is returned as it came, whatever its status. When the fetch does not resolve, the
  stored \<open>/index.html\<close> is returned in its place, and when there is none the handler
  still answers, with \<open>Response.error()\<close>, whose type is \<open>error\<close> and whose status is
  not 200.
\<close>

theorem navigation_network_first:
  assumes "method request = ''GET''" and "mode request = ''navigate''"
  shows "(\<forall>r. net env request = Some r \<longrightarrow>
            delivered (onfetch env request st) = Some (r\<lparr>bodyUsed := False\<rparr>))
       \<and> (\<forall>c. net env request = None \<and> store st ''/index.html'' = Some c \<longrightarrow>
            delivered (onfetch env request st) = Some c)
       \<and> (net env request = None \<and> store st ''/index.html'' = None \<longrightarrow>
            delivered (onfetch env request st) = Some Response_error)
       \<and> status Response_error \<noteq> 200 \<and> type Response_error = ''error''"
  using assms by (simp add: fetch_defs nth_append Response_error_def)

theorem navigation_network_first_witness:
  "method (get_request ''/tools/7'' ''navigate'' ''document'') = ''GET''
   \<and> mode (get_request ''/tools/7'' ''navigate'' ''document'') = ''navigate''
   \<and> net (network (Some http500)) (get_request ''/tools/7'' ''navigate'' ''document'')
       = Some http500
   \<and> delivered (onfetch (network (Some http500))
         (get_request ''/tools/7'' ''navigate'' ''document'') (task Map.empty)) = Some http500
   \<and> net (network None) (get_request ''/tools/7'' ''navigate'' ''document'') = None
   \<and> store (task [''/index.html'' \<mapsto> page ''shell'']) ''/index.html'' = Some (page ''shell'')
   \<and> delivered (onfetch (network None)
         (get_request ''/tools/7'' ''navigate'' ''document'')
         (task [''/index.html'' \<mapsto> page ''shell''])) = Some (page ''shell'')
   \<and> store (task Map.empty) ''/index.html'' = None
   \<and> delivered (onfetch (network None)
         (get_request ''/tools/7'' ''navigate'' ''document'') (task Map.empty))
       = Some Response_error"
  using navigation_network_first
          [of "get_request ''/tools/7'' ''navigate'' ''document''" "network (Some http500)"
              "task Map.empty"]
        navigation_network_first
          [of "get_request ''/tools/7'' ''navigate'' ''document''" "network None"
              "task [''/index.html'' \<mapsto> page ''shell'']"]
        navigation_network_first
          [of "get_request ''/tools/7'' ''navigate'' ''document''" "network None"
              "task Map.empty"]
  by (simp add: input_defs)

text \<open>
  Claim C7. A GET request that is not a navigation, is not in the store and whose fetch
  does not resolve: with destination \<open>document\<close> the stored \<open>/index.html\<close> is returned,
  or \<open>Response.error()\<close> when there is none; with any other destination
  \<open>Response.error()\<close> is returned.
\<close>

theorem runtime_fetch_failure_fallback:
  assumes "method request = ''GET''" and "mode request \<noteq> ''navigate''"
    and "store st (url request) = None" and "net env request = None"
  shows "(\<forall>c. destination request = ''document'' \<and> store st ''/index.html'' = Some c \<longrightarrow>
            delivered (onfetch env request st) = Some c)
       \<and> (destination request = ''document'' \<and> store st ''/index.html'' = None \<longrightarrow>
            delivered (onfetch env request st) = Some Response_error)
       \<and> (destination request \<noteq> ''document'' \<longrightarrow>
            delivered (onfetch env request st) = Some Response_error)"
  using assms by (simp add: fetch_defs nth_append)

theorem runtime_fetch_failure_fallback_witness:
  "method (get_request ''/help.html'' ''same-origin'' ''document'') = ''GET''
   \<and> mode (get_request ''/help.html'' ''same-origin'' ''document'') \<noteq> ''navigate''
   \<and> destination (get_request ''/help.html'' ''same-origin'' ''document'') = ''document''
   \<and> net (network None) (get_request ''/help.html'' ''same-origin'' ''document'') = None
   \<and> store (task [''/index.html'' \<mapsto> page ''shell''])
         (url (get_request ''/help.html'' ''same-origin'' ''document'')) = None
   \<and> store (task [''/index.html'' \<mapsto> page ''shell'']) ''/index.html'' = Some (page ''shell'')
   \<and> delivered (onfetch (network None)
         (get_request ''/help.html'' ''same-origin'' ''document'')
         (task [''/index.html'' \<mapsto> page ''shell''])) = Some (page ''shell'')
   \<and> store (task Map.empty) ''/index.html'' = None
   \<and> delivered (onfetch (network None)
         (get_request ''/help.html'' ''same-origin'' ''document'') (task Map.empty))
       = Some Response_error
   \<and> method (get_request ''/logo.png'' ''no-cors'' ''image'') = ''GET''
   \<and> mode (get_request ''/logo.png'' ''no-cors'' ''image'') \<noteq> ''navigate''
   \<and> destination (get_request ''/logo.png'' ''no-cors'' ''image'') \<noteq> ''document''
   \<and> delivered (onfetch (network None) (get_request ''/logo.png'' ''no-cors'' ''image'')
         (task [''/index.html'' \<mapsto> page ''shell''])) = Some Response_error"
  using runtime_fetch_failure_fallback
          [of "get_request ''/help.html'' ''same-origin'' ''document''"
              "task [''/index.html'' \<mapsto> page ''shell'']" "network None"]
        runtime_fetch_failure_fallback
          [of "get_request ''/help.html'' ''same-origin'' ''document''"
              "task Map.empty" "network None"]
        runtime_fetch_failure_fallback
          [of "get_request ''/logo.png'' ''no-cors'' ''image''"
              "task [''/index.html'' \<mapsto> page ''shell'']" "network None"]
  by (simp add: input_defs)

text \<open>
  Claim C8. For a request whose method is not GET the handler returns without calling
  \<open>respondWith\<close>: no response is registered and the state of the task is as before, so
  there was no network call, no cache lookup and no cache write.
\<close>

theorem non_get_passes_through:
  assumes "method request \<noteq> ''GET''"
  shows "onfetch env request st = (None, st)"
  using assms by (simp add: onfetch_def)

theorem non_get_passes_through_witness:
  "method (post_request ''/api/save'') \<noteq> ''GET''
   \<and> onfetch (network (Some (page ''saved''))) (post_request ''/api/save'')
        (task [''/api/save'' \<mapsto> page ''stale''])
       = (None, task [''/api/save'' \<mapsto> page ''stale''])"
  using non_get_passes_through
          [of "post_request ''/api/save''" "network (Some (page ''saved''))"
              "task [''/api/save'' \<mapsto> page ''stale'']"]
  by (simp add: input_defs)

text \<open>
  Claim C9. Handling a navigation GET request never writes to the store: no call of
  \<open>cache.put\<close> is made and the store afterwards is the store before, whether the fetch
  resolved or the offline fallback read the store.
\<close>

theorem navigation_leaves_store:
  assumes "method request = ''GET''" and "mode request = ''navigate''"
  shows "store (snd (onfetch env request st)) = store st
       \<and> puts (snd (onfetch env request st)) = puts st"
  using assms by (simp add: fetch_defs split: option.splits)

theorem navigation_leaves_store_witness:
  "method (get_request ''/tools/7'' ''navigate'' ''document'') = ''GET''
   \<and> mode (get_request ''/tools/7'' ''navigate'' ''document'') = ''navigate''
   \<and> store (snd (onfetch (network (Some (page ''tool 7'')))
         (get_request ''/tools/7'' ''navigate'' ''document'')
         (task [''/index.html'' \<mapsto> page ''shell''])))
       = [''/index.html'' \<mapsto> page ''shell'']
   \<and> store (snd (onfetch (network None)
         (get_request ''/tools/7'' ''navigate'' ''document'')
         (task [''/index.html'' \<mapsto> page ''shell''])))
       = [''/index.html'' \<mapsto> page ''shell'']
   \<and> puts (snd (onfetch (network None)
         (get_request ''/tools/7'' ''navigate'' ''document'')
         (task [''/index.html'' \<mapsto> page ''shell'']))) = []"
  using navigation_leaves_store
          [of "get_request ''/tools/7'' ''navigate'' ''document''"
              "network (Some (page ''tool 7''))" "task [''/index.html'' \<mapsto> page ''shell'']"]
        navigation_leaves_store
          [of "get_request ''/tools/7'' ''navigate'' ''document''"
              "network None" "task [''/index.html'' \<mapsto> page ''shell'']"]
  by (simp add: input_defs)

text \<open>
  Claim C10. The handler does not wait for \<open>cache.put\<close>, so the outcome of the write
  cannot reach the answer: for every request and state the reference returned and the
  response object behind it are the same whatever the cache says to the write, and a
  cacheable response whose write is refused is still delivered as it came.
\<close>

theorem put_outcome_does_not_change_answer:
  "fst (onfetch (env\<lparr>put_ok := p\<rparr>) request st) = fst (onfetch (env\<lparr>put_ok := q\<rparr>) request st)
   \<and> delivered (onfetch (env\<lparr>put_ok := p\<rparr>) request st)
       = delivered (onfetch (env\<lparr>put_ok := q\<rparr>) request st)
   \<and> (method request = ''GET'' \<and> mode request \<noteq> ''navigate''
       \<and> store st (url request) = None \<and> net env request = Some r
       \<and> status r = 200 \<and> type r = ''basic'' \<and> \<not> put_ok env request
       \<longrightarrow> delivered (onfetch env request st) = Some (r\<lparr>bodyUsed := False\<rparr>)
         \<and> store (snd (onfetch env request st)) = store st)"
  by (simp add: fetch_defs nth_append split: option.splits)

theorem put_outcome_does_not_change_answer_witness:
  "method (get_request ''/static/app.js'' ''no-cors'' ''script'') = ''GET''
   \<and> mode (get_request ''/static/app.js'' ''no-cors'' ''script'') \<noteq> ''navigate''
   \<and> store (task Map.empty) (url (get_request ''/static/app.js'' ''no-cors'' ''script'')) = None
   \<and> net ((network (Some (page ''code'')))\<lparr>put_ok := (\<lambda>req. False)\<rparr>)
         (get_request ''/static/app.js'' ''no-cors'' ''script'') = Some (page ''code'')
   \<and> status (page ''code'') = 200 \<and> type (page ''code'') = ''basic''
   \<and> \<not> put_ok ((network (Some (page ''code'')))\<lparr>put_ok := (\<lambda>req. False)\<rparr>)
         (get_request ''/static/app.js'' ''no-cors'' ''script'')
   \<and> delivered (onfetch ((network (Some (page ''code'')))\<lparr>put_ok := (\<lambda>req. False)\<rparr>)
         (get_request ''/static/app.js'' ''no-cors'' ''script'') (task Map.empty))
       = Some (page ''code'')
   \<and> delivered (onfetch ((network (Some (page ''code'')))\<lparr>put_ok := (\<lambda>req. True)\<rparr>)
         (get_request ''/static/app.js'' ''no-cors'' ''script'') (task Map.empty))
       = Some (page ''code'')
   \<and> store (snd (onfetch ((network (Some (page ''code'')))\<lparr>put_ok := (\<lambda>req. False)\<rparr>)
         (get_request ''/static/app.js'' ''no-cors'' ''script'') (task Map.empty)))
       = Map.empty"
  using put_outcome_does_not_change_answer
          [where env = "(network (Some (page ''code'')))\<lparr>put_ok := (\<lambda>req. False)\<rparr>"
             and p = "\<lambda>req. False" and q = "\<lambda>req. True"
             and request = "get_request ''/static/app.js'' ''no-cors'' ''script''"
             and st = "task Map.empty" and r = "page ''code''"]
  by (simp add: input_defs fetch_defs)

section \<open>Activate\<close>

lemma delete_old_eq:
  "delete_old keys (reg, deleted) =
     (filter (\<lambda>e. fst e \<notin> set keys - {CACHE_NAME}) reg,
      deleted @ filter (\<lambda>k. k \<noteq> CACHE_NAME) keys)"
  by (induction keys arbitrary: reg deleted) (auto simp: caches_delete_def intro: filter_cong)

lemma onactivate_registry: "fst (onactivate reg) = filter (\<lambda>e. fst e = CACHE_NAME) reg"
  by (auto simp: onactivate_def delete_old_eq caches_keys_def intro: filter_cong)

lemma onactivate_deleted:
  "snd (onactivate reg) = filter (\<lambda>k. k \<noteq> CACHE_NAME) (caches_keys reg)"
  by (simp add: onactivate_def delete_old_eq)

lemma onactivate_twice: "onactivate (fst (onactivate reg)) = (fst (onactivate reg), [])"
  unfolding onactivate_registry
  by (auto simp: onactivate_def delete_old_eq caches_keys_def filter_empty_conv
      intro: filter_cong)

lemma onactivate_scenario6:
  "onactivate [(''hob-tools-v1'', c1), (''hob-tools-v0'', c0), (''hob-tools-v2'', c2)] =
     ([(''hob-tools-v2'', c2)], [''hob-tools-v1'', ''hob-tools-v0''])"
  by (simp add: onactivate_def caches_keys_def caches_delete_def CACHE_NAME_def)

text \<open>
  Claim C6. Activation deletes every cache of the registry whose name is not
  \<open>CACHE_NAME\<close> and keeps the caches of that name with their contents: the registry
  afterwards is the registry before restricted to that name, and the names deleted are
  all the others. Activating again deletes nothing and changes nothing. With
  \<open>hob-tools-v1\<close>, \<open>hob-tools-v0\<close> and \<open>hob-tools-v2\<close> present, the first two are deleted
  and \<open>hob-tools-v2\<close> remains as it was.
\<close>

theorem activate_keeps_current_version_only:
  "fst (onactivate reg) = filter (\<lambda>e. fst e = CACHE_NAME) reg
   \<and> snd (onactivate reg) = filter (\<lambda>k. k \<noteq> CACHE_NAME) (caches_keys reg)
   \<and> onactivate (fst (onactivate reg)) = (fst (onactivate reg), [])
   \<and> onactivate [(''hob-tools-v1'', c1), (''hob-tools-v0'', c0), (''hob-tools-v2'', c2)]
       = ([(''hob-tools-v2'', c2)], [''hob-tools-v1'', ''hob-tools-v0''])"
  by (intro conjI onactivate_registry onactivate_deleted onactivate_twice
        onactivate_scenario6)

theorem activate_keeps_current_version_only_witness:
  "onactivate [(''hob-tools-v1'', [''/'' \<mapsto> page ''v1'']), (''other-app'', Map.empty),
               (''hob-tools-v2'', [''/'' \<mapsto> page ''v2''])]
     = ([(''hob-tools-v2'', [''/'' \<mapsto> page ''v2''])], [''hob-tools-v1'', ''other-app''])
   \<and> onactivate [(''hob-tools-v2'', [''/'' \<mapsto> page ''v2''])]
     = ([(''hob-tools-v2'', [''/'' \<mapsto> page ''v2''])], [])"
  using activate_keeps_current_version_only
          [of "[(''hob-tools-v1'', [''/'' \<mapsto> page ''v1'']), (''other-app'', Map.empty),
                (''hob-tools-v2'', [''/'' \<mapsto> page ''v2''])]"]
  by (simp add: onactivate_def caches_keys_def caches_delete_def CACHE_NAME_def)

end
